theory Spec2Isabelle
  imports Main
begin

text \<open>
  The request dispatch of the mini server, \<open>src/server/server.js\<close>: the route
  matcher and the controller of class \<open>ApiController\<close>, and the static file server
  and the main handler of class \<open>MiniServer\<close>, as functions on explicit state, with
  the properties that the specification states of them.
\<close>

section \<open>JavaScript strings and arrays\<close>

text \<open>
  Strings are \<open>char list\<close>. The operations below are the \<open>String.prototype\<close> and
  \<open>Array.prototype\<close> methods that \<open>src/server/server.js\<close> calls, each with the
  behaviour the language defines for it. Upper-casing is the ASCII one: HTTP method
  names are ASCII tokens.
\<close>

text \<open>\<open>s.split(c)\<close> for a one-character separator: never empty, \<open>''.split(c)\<close> is \<open>['']\<close>.\<close>

fun split :: "char \<Rightarrow> string \<Rightarrow> string list" where
  "split c [] = [[]]"
| "split c (x # xs) =
     (if x = c then [] # split c xs
      else (let r = split c xs in (x # hd r) # tl r))"

text \<open>\<open>s.startsWith(p)\<close>, \<open>s.endsWith(p)\<close>, \<open>s.includes(p)\<close>, \<open>s.substring(n)\<close>.\<close>

definition startsWith :: "string \<Rightarrow> string \<Rightarrow> bool" where
  "startsWith p s = (take (length p) s = p)"

definition endsWith :: "string \<Rightarrow> string \<Rightarrow> bool" where
  "endsWith p s = (length p \<le> length s \<and> drop (length s - length p) s = p)"

fun includesStr :: "string \<Rightarrow> string \<Rightarrow> bool" where
  "includesStr p [] = (p = [])"
| "includesStr p (x # xs) = (startsWith p (x # xs) \<or> includesStr p xs)"

definition substring :: "nat \<Rightarrow> string \<Rightarrow> string" where
  "substring n s = drop n s"

text \<open>
  \<open>s.replace(p, r)\<close> with a string pattern replaces the first occurrence only. The
  replacement strings of this program contain no \<open>$\<close>, so no replacement pattern
  is ever expanded.
\<close>

fun replace :: "string \<Rightarrow> string \<Rightarrow> string \<Rightarrow> string" where
  "replace p r [] = (if p = [] then r else [])"
| "replace p r (x # xs) =
     (if startsWith p (x # xs) then r @ drop (length p) (x # xs)
      else x # replace p r xs)"

definition toUpperChar :: "char \<Rightarrow> char" where
  "toUpperChar c =
     (case map_of (zip ''abcdefghijklmnopqrstuvwxyz'' ''ABCDEFGHIJKLMNOPQRSTUVWXYZ'') c of
        Some u \<Rightarrow> u
      | None \<Rightarrow> c)"

definition toUpperCase :: "string \<Rightarrow> string" where
  "toUpperCase s = map toUpperChar s"

text \<open>\<open>xs[i]\<close>: \<open>undefined\<close> (here \<open>None\<close>) out of range.\<close>

definition index :: "'a list \<Rightarrow> nat \<Rightarrow> 'a option" where
  "index xs i = (if i < length xs then Some (xs ! i) else None)"

text \<open>\<open>xs.every((x, i) => p(x, i))\<close> and \<open>xs.forEach((x, i) => ...)\<close> see each element with its index.\<close>

definition every :: "('a \<Rightarrow> nat \<Rightarrow> bool) \<Rightarrow> 'a list \<Rightarrow> bool" where
  "every p xs = list_all (\<lambda>(i, x). p x i) (enumerate 0 xs)"

definition forEach :: "('a \<Rightarrow> nat \<Rightarrow> 'b \<Rightarrow> 'b) \<Rightarrow> 'a list \<Rightarrow> 'b \<Rightarrow> 'b" where
  "forEach f xs acc = foldl (\<lambda>a (i, x). f x i a) acc (enumerate 0 xs)"

text \<open>
  \<open>a || b\<close> on an optional string: \<open>undefined\<close> and the empty string are falsy.
\<close>

definition orElse :: "string option \<Rightarrow> string \<Rightarrow> string" where
  "orElse m d = (case m of None \<Rightarrow> d | Some s \<Rightarrow> if s = [] then d else s)"

text \<open>
  A plain object used as a dictionary, \<open>Record<string, string>\<close>, is a map of its own
  properties. The assignment \<open>o[k] = v\<close> of a string \<open>v\<close> creates or overwrites the own
  property \<open>k\<close>, except for the key \<open>__proto__\<close>: that assignment reaches the
  accessor of \<open>Object.prototype\<close>, which ignores a value that is not an object, so
  the object is left as it was.
\<close>

definition assign :: "(string \<rightharpoonup> string) \<Rightarrow> string \<Rightarrow> string \<Rightarrow> (string \<rightharpoonup> string)" where
  "assign obj k v = (if k = ''__proto__'' then obj else obj(k \<mapsto> v))"

section \<open>The route matcher\<close>

text \<open>
  \<open>isRouteMatch\<close> takes two objects of the same shape, \<open>{url, method?}\<close>: the route's
  and the request's; the field \<open>method\<close> is \<open>meth\<close> here. In a condition, a method
  that is \<open>undefined\<close> or the empty string is falsy.
\<close>

record target =
  url :: string
  meth :: "string option"

text \<open>\<open>ApiController.isRouteMatch\<close> (server.js, lines 216 to 236).\<close>

definition isRouteMatch :: "target \<Rightarrow> target \<Rightarrow> bool" where
  "isRouteMatch route request =
     (let pathParts = split CHR ''/'' (url route);
          requestParts = split CHR ''/'' (url request)
      in if length pathParts \<noteq> length requestParts then False
         else if (case (meth route, meth request) of
                    (Some rm, Some qm) \<Rightarrow>
                      rm \<noteq> [] \<and> qm \<noteq> [] \<and> toUpperCase rm \<noteq> toUpperCase qm
                  | _ \<Rightarrow> False)
         then False
         else every (\<lambda>part i.
                if startsWith '':'' part then True
                else index requestParts i = Some part) pathParts)"

text \<open>\<open>ApiController.getVariablesFromPath\<close> (server.js, lines 243 to 255).\<close>

definition getVariablesFromPath :: "string \<Rightarrow> target \<Rightarrow> (string \<rightharpoonup> string)" where
  "getVariablesFromPath path request =
     (let requestWithoutQuery = hd (split CHR ''?'' (url request));
          pathParts = split CHR ''/'' path;
          requestParts = split CHR ''/'' requestWithoutQuery
      in forEach (\<lambda>part i variables.
            if startsWith '':'' part
            then assign variables (substring 1 part) (orElse (index requestParts i) '''')
            else variables) pathParts Map.empty)"

section \<open>Requests, responses and completions\<close>

text \<open>
  Of an \<open>http.IncomingMessage\<close> the program reads \<open>url\<close> and \<open>method\<close>, both of
  which may be \<open>undefined\<close>.
\<close>

record request =
  req_url :: "string option"
  req_method :: "string option"

text \<open>
  An \<open>http.ServerResponse\<close>: the status code (200 until \<open>writeHead\<close> sets another),
  the headers, the body written so far and whether \<open>end()\<close> was called. Its methods
  \<open>writeHead\<close>, \<open>write\<close> and \<open>end\<close> are \<open>writeHead\<close>, \<open>res_write\<close> and \<open>res_end\<close>.
\<close>

record response =
  statusCode :: nat
  headers :: "(string \<times> string) list"
  body :: string
  ended :: bool

definition newResponse :: response where
  "newResponse = \<lparr>statusCode = 200, headers = [], body = [], ended = False\<rparr>"

definition writeHead :: "nat \<Rightarrow> (string \<times> string) list \<Rightarrow> response \<Rightarrow> response" where
  "writeHead st hs res = res\<lparr>statusCode := st, headers := hs\<rparr>"

definition res_write :: "string \<Rightarrow> response \<Rightarrow> response" where
  "res_write chunk res = res\<lparr>body := body res @ chunk\<rparr>"

definition res_end :: "response \<Rightarrow> response" where
  "res_end res = res\<lparr>ended := True\<rparr>"

text \<open>A call either returns a value or throws; the thrown value is kept as its text.\<close>

datatype 'a completion = Normal 'a | Throw string

section \<open>The platform\<close>

text \<open>
  What the program takes from Node.js is a parameter of the model: the \<open>path\<close>
  functions, the file system as the synchronous calls see it, \<open>JSON.stringify\<close>
  on the values of type \<open>'j\<close> that the controller holds (with its indentation argument;
  0 stands for the call without one; \<open>Inl\<close> is the exception it throws on a value
  that cannot be serialised), the truthiness of such a value and the empty object for
  \<open>data || {}\<close>, and whether the promise of \<open>writeFile\<close> will be rejected (\<open>Some\<close> of
  the reason) or fulfilled. What the program prints on the console is left out.
\<close>

record 'j node =
  joinPath :: "string \<Rightarrow> string \<Rightarrow> string"
  extname :: "string \<Rightarrow> string"
  cwd :: string
  existsSync :: "string \<Rightarrow> bool"
  isDirectory :: "string \<Rightarrow> string + bool"
  readFileSync :: "string \<Rightarrow> string + string"
  stringify :: "'j \<Rightarrow> nat \<Rightarrow> string + string"
  isTruthy :: "'j \<Rightarrow> bool"
  emptyObject :: 'j
  writeFile :: "string \<Rightarrow> string \<Rightarrow> string \<Rightarrow> string option"

text \<open>
  The effects that outlive a call of the controller: the \<open>writeFile\<close> calls issued
  (file, data, encoding), in order, and the rejections nobody handles. \<open>use\<close> calls
  \<open>.then()\<close> with no handler on the promise and drops the result, so a rejected
  write ends as an unhandled rejection of the process and reaches no caller.
\<close>

record io =
  issued :: "(string \<times> string \<times> string) list"
  unhandled :: "string list"

section \<open>The API controller\<close>

text \<open>
  A route action gets the request and the response and may read and change the
  controller's state; it returns or throws, and what it did before throwing stays done.
\<close>

record 'j route =
  route_url :: string
  route_method :: "string option"
  routeAction :: "request \<Rightarrow> response \<Rightarrow> 'j \<Rightarrow> unit completion \<times> response \<times> 'j"

record 'j ApiController =
  persistState :: bool
  stateSaveFileName :: string
  routes :: "'j route list"
  state :: 'j

record use_result =
  handled :: bool

text \<open>The argument of \<open>createRoute\<close>; only \<open>url\<close> is required.\<close>

record 'j createRouteArgs =
  arg_url :: string
  arg_method :: "string option"
  arg_data :: "'j option"
  arg_status :: "nat option"

text \<open>\<open>ApiController.createRoute\<close> (server.js, lines 265 to 277).\<close>

definition createRoute :: "'j node \<Rightarrow> 'j createRouteArgs \<Rightarrow> 'j route" where
  "createRoute nd args =
     \<lparr>route_url = arg_url args,
      route_method = Some (orElse (arg_method args) ''GET''),
      routeAction = (\<lambda>req res st.
        (let res1 = writeHead
                      (case arg_status args of
                         None \<Rightarrow> 200
                       | Some n \<Rightarrow> if n = 0 then 200 else n)
                      [(''Content-Type'', ''application/json'')] res
         in (case stringify nd
                    (case arg_data args of
                       None \<Rightarrow> emptyObject nd
                     | Some d \<Rightarrow> if isTruthy nd d then d else emptyObject nd) 0 of
               Inl e \<Rightarrow> (Throw e, res1, st)
             | Inr text \<Rightarrow> (Normal (), res_end (res_write text res1), st))))\<rparr>"

text \<open>
  The part of \<open>use\<close> after the route is found (server.js, lines 308 to 316): the
  action runs; if it throws, the exception leaves \<open>use\<close> at once; otherwise, with
  persistence on, the state as the action left it is serialised, which throws if it
  cannot be, and written out, and the promise is dropped.
\<close>

definition invoke ::
  "'j node \<Rightarrow> 'j ApiController \<Rightarrow> 'j route \<Rightarrow> request \<Rightarrow> response \<Rightarrow> io \<Rightarrow>
     use_result completion \<times> 'j ApiController \<times> response \<times> io" where
  "invoke nd this route request response w =
     (case routeAction route request response (state this) of
        (Throw e, response', st') \<Rightarrow> (Throw e, this\<lparr>state := st'\<rparr>, response', w)
      | (Normal _, response', st') \<Rightarrow>
          (let this' = this\<lparr>state := st'\<rparr>
           in if persistState this'
              then (case stringify nd (state this') 2 of
                      Inl e \<Rightarrow> (Throw e, this', response', w)
                    | Inr text \<Rightarrow>
                        (let file = stateSaveFileName this';
                             w' = (case writeFile nd file text ''utf8'' of
                                     None \<Rightarrow> w\<lparr>issued := issued w @ [(file, text, ''utf8'')]\<rparr>
                                   | Some reason \<Rightarrow>
                                       w\<lparr>issued := issued w @ [(file, text, ''utf8'')],
                                         unhandled := unhandled w @ [reason]\<rparr>)
                         in (Normal \<lparr>handled = True\<rparr>, this', response', w')))
              else (Normal \<lparr>handled = True\<rparr>, this', response', w)))"

text \<open>
  The test that \<open>use\<close> hands to \<open>find\<close> (server.js, lines 295 to 303), with the
  request's \<open>url\<close> made a string first.
\<close>

definition matchesRequest :: "'j route \<Rightarrow> request \<Rightarrow> bool" where
  "matchesRequest r request =
     (let url = (case req_url request of Some u \<Rightarrow> u | None \<Rightarrow> [])
      in isRouteMatch
           \<lparr>url = route_url r, meth = route_method r\<rparr>
           \<lparr>url = url, meth = req_method request\<rparr>)"

text \<open>\<open>ApiController.use\<close> (server.js, lines 294 to 317).\<close>

definition use ::
  "'j node \<Rightarrow> 'j ApiController \<Rightarrow> request \<Rightarrow> response \<Rightarrow> io \<Rightarrow>
     use_result completion \<times> 'j ApiController \<times> response \<times> io" where
  "use nd this request response w =
     (case find (\<lambda>r. matchesRequest r request) (routes this) of
        None \<Rightarrow> (Normal \<lparr>handled = False\<rparr>, this, response, w)
      | Some route \<Rightarrow> invoke nd this route request response w)"

text \<open>\<open>ApiController.addRoute\<close> (server.js, lines 324 to 327).\<close>

definition addRoute :: "'j route \<Rightarrow> 'j ApiController \<Rightarrow> 'j ApiController" where
  "addRoute route this = this\<lparr>routes := routes this @ [route]\<rparr>"

section \<open>The server\<close>

text \<open>
  The fields of a \<open>MiniServer\<close>, with the source's spelling. The constructor makes
  \<open>hotRelaodfile\<close> from \<open>hot-reload-\<close>, digits and lower-case letters, and \<open>.js\<close>.
\<close>

record 'j MiniServer =
  root :: string
  port :: nat
  staticFolder :: string
  apiConteoller :: "'j ApiController option"
  hotRelaodfile :: string
  devHotReload :: bool

text \<open>The getter \<open>htmlHotReloadWorker\<close> (server.js, lines 39 to 49).\<close>

definition htmlHotReloadWorker :: string where
  "htmlHotReloadWorker =
     ''onconnect = (e) => {\<newline>'' @
     ''    const port = e.ports[0];\<newline>'' @
     ''    const evtSource = new EventSource('http://localhost:35729');\<newline>'' @
     ''    evtSource.addEventListener('message', (e) => {\<newline>'' @
     ''        port.postMessage(e.data);\<newline>'' @
     ''    });\<newline>'' @
     ''    port.start();\<newline>'' @
     ''};\<newline>''"

text \<open>The getter \<open>htmlHotReloadScript\<close> (server.js, lines 54 to 70).\<close>

definition htmlHotReloadScript :: "'j MiniServer \<Rightarrow> string" where
  "htmlHotReloadScript this =
     ''<script>\<newline>'' @
     ''        try { \<newline>'' @
     ''            const myWorker = new SharedWorker(\"'' @ hotRelaodfile this @ ''\", {\<newline>'' @
     ''                name: 'reload-worker',\<newline>'' @
     ''            });\<newline>'' @
     ''            myWorker.port.start();\<newline>'' @
     ''            myWorker.port.onmessage = (e) => {\<newline>'' @
     ''                if (e.data === 'reload') {\<newline>'' @
     ''                    window.location.reload();\<newline>'' @
     ''                }\<newline>'' @
     ''            };\<newline>'' @
     ''         } catch (err) {\<newline>'' @
     ''            console.error('Hot reload worker failed to start:', err);\<newline>'' @
     ''         }\<newline>'' @
     ''    </script>''"

text \<open>The table \<open>contentTypes\<close> of \<open>staticFileServer\<close> (server.js, lines 108 to 114).\<close>

definition contentTypes :: "(string \<times> string) list" where
  "contentTypes =
     [(''.html'', ''text/html''),
      (''.css'', ''text/css''),
      (''.js'', ''text/javascript''),
      (''.json'', ''text/json''),
      (''.svg'', ''image/svg+xml'')]"

text \<open>
  The \<open>try\<close> block that ends \<open>staticFileServer\<close> (server.js, lines 128 to 151),
  for the file name the branches before it have settled on.
\<close>

definition sendFile :: "'j node \<Rightarrow> 'j MiniServer \<Rightarrow> string \<Rightarrow> response \<Rightarrow> response" where
  "sendFile nd this filename response =
     (case readFileSync nd filename of
        Inl err \<Rightarrow>
          res_end (res_write (err @ ''\<newline>'')
            (writeHead 500 [(''Content-Type'', ''text/plain'')] response))
      | Inr content \<Rightarrow>
          (let file = (if endsWith ''.html'' filename \<and> devHotReload this
                       then replace ''</head>'' (htmlHotReloadScript this @ ''</head>'') content
                       else content);
               hs = (case map_of contentTypes (extname nd filename) of
                       None \<Rightarrow> []
                     | Some contentType \<Rightarrow> [(''Content-Type'', contentType)])
           in res_end (res_write file (writeHead 200 hs response))))"

text \<open>
  \<open>MiniServer.staticFileServer\<close> (server.js, lines 93 to 152). \<open>statSync\<close> is
  called outside the \<open>try\<close> block, so its exception leaves the function.
\<close>

definition staticFileServer ::
  "'j node \<Rightarrow> 'j MiniServer \<Rightarrow> request \<Rightarrow> response \<Rightarrow> unit completion \<times> response" where
  "staticFileServer nd this request response =
     (let url = (case req_url request of Some u \<Rightarrow> u | None \<Rightarrow> []);
          basePath = joinPath nd (root this) (staticFolder this);
          filename = joinPath nd basePath url
      in if includesStr ''.well-known'' filename then (Normal (), res_end response)
         else if devHotReload this \<and> replace ''/'' [] url = hotRelaodfile this
         then (Normal (),
               res_end (res_write htmlHotReloadWorker
                 (writeHead 200 [(''Content-Type'', ''text/javascript'')] response)))
         else if \<not> existsSync nd filename
         then (if includesStr ''api'' filename
               then (Normal (),
                     res_end (res_write ''API call not found''
                       (writeHead 400 [(''Content-Type'', ''text/plain'')] response)))
               else (Normal (), sendFile nd this (joinPath nd (cwd nd) ''/404.html'') response))
         else (case isDirectory nd filename of
                 Inl err \<Rightarrow> (Throw err, response)
               | Inr dir \<Rightarrow>
                   (Normal (),
                    sendFile nd this (if dir then filename @ ''/index.html'' else filename)
                      response)))"

text \<open>
  \<open>MiniServer.apiCallsServer\<close> (server.js, lines 160 to 167): without a controller
  the result is \<open>undefined\<close>; with one, \<open>use\<close> gets a copy of the request whose
  \<open>url\<close> is a string.
\<close>

definition apiCallsServer ::
  "'j node \<Rightarrow> 'j MiniServer \<Rightarrow> request \<Rightarrow> response \<Rightarrow> io \<Rightarrow>
     use_result option completion \<times> 'j MiniServer \<times> response \<times> io" where
  "apiCallsServer nd this request response w =
     (case apiConteoller this of
        None \<Rightarrow> (Normal None, this, response, w)
      | Some controller \<Rightarrow>
          (let url = (case req_url request of Some u \<Rightarrow> u | None \<Rightarrow> [])
           in (case use nd controller (request\<lparr>req_url := Some url\<rparr>) response w of
                 (Throw e, controller', response', w') \<Rightarrow>
                   (Throw e, this\<lparr>apiConteoller := Some controller'\<rparr>, response', w')
               | (Normal result, controller', response', w') \<Rightarrow>
                   (Normal (Some result), this\<lparr>apiConteoller := Some controller'\<rparr>,
                    response', w'))))"

text \<open>
  \<open>MiniServer.serverMainHandler\<close> (server.js, lines 175 to 181). An exception makes
  the promise of this \<open>async\<close> function a rejected one: \<open>Throw\<close>.
\<close>

definition serverMainHandler ::
  "'j node \<Rightarrow> 'j MiniServer \<Rightarrow> request \<Rightarrow> response \<Rightarrow> io \<Rightarrow>
     unit completion \<times> 'j MiniServer \<times> response \<times> io" where
  "serverMainHandler nd this request response w =
     (case apiCallsServer nd this request response w of
        (Throw e, this', response', w') \<Rightarrow> (Throw e, this', response', w')
      | (Normal result, this', response', w') \<Rightarrow>
          (if (case result of None \<Rightarrow> False | Some r \<Rightarrow> handled r)
           then (Normal (), this', response', w')
           else (case staticFileServer nd this' request response' of
                   (c, response'') \<Rightarrow> (c, this', response'', w'))))"

section \<open>The specification's reading of variable extraction\<close>

text \<open>
  \<open>extractVariables\<close> as the specification words it: the request path up to its
  first \<open>?\<close> is split into segments, and every pattern segment that starts with
  a colon binds its name, the text after the colon, to the request segment at the same
  position, or to the empty string where the request has no such segment. Bindings
  are made in the order of the pattern, so a name that occurs twice keeps the later one.
\<close>

definition extractVariables :: "string \<Rightarrow> string \<Rightarrow> (string \<rightharpoonup> string)" where
  "extractVariables pattern requestPath =
     (let stripped = takeWhile (\<lambda>c. c \<noteq> CHR ''?'') requestPath;
          segments = split CHR ''/'' stripped
      in map_of (rev (map (\<lambda>(i, p). (tl p, if i < length segments then segments ! i else []))
           (filter (\<lambda>(i, p). p \<noteq> [] \<and> hd p = CHR '':'')
              (enumerate 0 (split CHR ''/'' pattern))))))"

section \<open>A concrete platform and controllers for the examples\<close>

text \<open>
  \<open>path.join\<close> and \<open>path.extname\<close> as Node.js defines them on POSIX: the joined
  text is normalised, that is, empty and \<open>.\<close> segments go and \<open>..\<close> takes the
  segment before it away.
\<close>

fun normalizeSegments :: "bool \<Rightarrow> string list \<Rightarrow> string list \<Rightarrow> string list" where
  "normalizeSegments allowAboveRoot acc [] = acc"
| "normalizeSegments allowAboveRoot acc (s # ss) =
     (if s = [] \<or> s = ''.'' then normalizeSegments allowAboveRoot acc ss
      else if s = ''..''
      then (if acc \<noteq> [] \<and> last acc \<noteq> ''..''
            then normalizeSegments allowAboveRoot (butlast acc) ss
            else if allowAboveRoot then normalizeSegments allowAboveRoot (acc @ [''..'']) ss
            else normalizeSegments allowAboveRoot acc ss)
      else normalizeSegments allowAboveRoot (acc @ [s]) ss)"

fun joinWith :: "string \<Rightarrow> string list \<Rightarrow> string" where
  "joinWith sep [] = []"
| "joinWith sep [x] = x"
| "joinWith sep (x # y # ys) = x @ sep @ joinWith sep (y # ys)"

definition posixNormalize :: "string \<Rightarrow> string" where
  "posixNormalize path =
     (if path = [] then ''.''
      else (let isAbsolute = (hd path = CHR ''/'');
                trailingSeparator = (last path = CHR ''/'');
                segs = normalizeSegments (\<not> isAbsolute) [] (split CHR ''/'' path)
            in if segs = [] then (if isAbsolute then ''/'' else if trailingSeparator then ''./'' else ''.'')
               else (if isAbsolute then ''/'' else []) @ joinWith ''/'' segs @
                    (if trailingSeparator then ''/'' else [])))"

definition posixJoin :: "string \<Rightarrow> string \<Rightarrow> string" where
  "posixJoin a b =
     (if a = [] \<and> b = [] then ''.''
      else if a = [] then posixNormalize b
      else if b = [] then posixNormalize a
      else posixNormalize (a @ ''/'' @ b))"

definition posixExtname :: "string \<Rightarrow> string" where
  "posixExtname path =
     (let names = filter (\<lambda>s. s \<noteq> []) (split CHR ''/'' path);
          base = (if names = [] then [] else last names);
          ext = CHR ''.'' # rev (takeWhile (\<lambda>c. c \<noteq> CHR ''.'') (rev base))
      in if base = ''..'' \<or> length ext = length base \<or> CHR ''.'' \<notin> set base then []
         else ext)"

text \<open>
  The values of the examples are flat objects with numeric fields, such as
  \<open>{count: 0}\<close>; \<open>showObject\<close> is \<open>JSON.stringify\<close> on them, for keys that need
  no escaping.
\<close>

fun showNat :: "nat \<Rightarrow> string" where
  "showNat n =
     (if n < 10 then [''0123456789'' ! n]
      else showNat (n div 10) @ [''0123456789'' ! (n mod 10)])"

definition showObject :: "(string \<times> nat) list \<Rightarrow> nat \<Rightarrow> string" where
  "showObject obj indent =
     (if obj = [] then ''{}''
      else if indent = 0
      then ''{'' @ joinWith '','' (map (\<lambda>(k, v). ''\"'' @ k @ ''\":'' @ showNat v) obj) @ ''}''
      else ''{\<newline>'' @
           joinWith '',\<newline>''
             (map (\<lambda>(k, v). replicate indent CHR '' '' @ ''\"'' @ k @ ''\": '' @ showNat v) obj) @
           ''\<newline>}'')"

text \<open>
  A platform over a disk given by its files (name and content) and its directories.
  Writes below \<open>/readonly/\<close> are rejected.
\<close>

definition exampleNode ::
  "(string \<times> string) list \<Rightarrow> string list \<Rightarrow> (string \<times> nat) list node" where
  "exampleNode files dirs =
     \<lparr>joinPath = posixJoin,
      extname = posixExtname,
      cwd = ''/srv'',
      existsSync = (\<lambda>p. p \<in> set dirs \<or> map_of files p \<noteq> None),
      isDirectory = (\<lambda>p. if p \<in> set dirs then Inr True
                          else if map_of files p \<noteq> None then Inr False
                          else Inl (''Error: ENOENT: no such file or directory, stat '' @ p)),
      readFileSync = (\<lambda>p. case map_of files p of
                             Some content \<Rightarrow> Inr content
                           | None \<Rightarrow> Inl (''Error: ENOENT: no such file or directory, open '' @ p)),
      stringify = (\<lambda>obj indent. Inr (showObject obj indent)),
      isTruthy = (\<lambda>obj. True),
      emptyObject = [],
      writeFile = (\<lambda>file text enc.
                     if startsWith ''/readonly/'' file
                     then Some (''Error: EACCES: permission denied, open '' @ file)
                     else None)\<rparr>"

definition exampleFiles :: "(string \<times> string) list" where
  "exampleFiles =
     [(''/srv/404.html'', ''<html><head></head><body>Not found</body></html>''),
      (''/srv/public/index.html'', ''<html><head></head><body>Hello</body></html>''),
      (''/srv/public/app.js'', ''console.log(1);'')]"

definition exampleDirs :: "string list" where
  "exampleDirs = [''/srv'', ''/srv/public'']"

text \<open>
  The action of the route \<open>/api/first\<close> of \<open>src/server/controller.js\<close> (lines 37
  to 44), on a state that has a \<open>count\<close>.
\<close>

definition firstAction ::
  "request \<Rightarrow> response \<Rightarrow> (string \<times> nat) list \<Rightarrow> unit completion \<times> response \<times> (string \<times> nat) list" where
  "firstAction req res st =
     (let count = (case map_of st ''count'' of Some n \<Rightarrow> n | None \<Rightarrow> 0) + 1;
          st' = map (\<lambda>(k, v). if k = ''count'' then (k, count) else (k, v)) st
      in (Normal (),
          res_end (res_write
            (''route '' @ (case req_url req of Some u \<Rightarrow> u | None \<Rightarrow> ''undefined'') @
             ''  was called '' @ showNat count @ '' times'')
            (writeHead 200 [(''Content-Type'', ''text/plain'')] res)),
          st'))"

text \<open>An action that changes the state and then throws.\<close>

definition failingAction ::
  "request \<Rightarrow> response \<Rightarrow> (string \<times> nat) list \<Rightarrow> unit completion \<times> response \<times> (string \<times> nat) list" where
  "failingAction req res st = (Throw ''Error: boom'', res, (''touched'', 1) # st)"

definition exampleController :: "(string \<times> nat) list ApiController" where
  "exampleController =
     \<lparr>persistState = True,
      stateSaveFileName = ''./server.state.temp'',
      routes =
        [\<lparr>route_url = ''/api/first'', route_method = None, routeAction = firstAction\<rparr>,
         createRoute (exampleNode exampleFiles exampleDirs)
           \<lparr>arg_url = ''/api/second/:id'', arg_method = None,
            arg_data = Some [(''abc'', 123)], arg_status = None\<rparr>,
         \<lparr>route_url = ''/api/fail'', route_method = None, routeAction = failingAction\<rparr>],
      state = [(''count'', 0)]\<rparr>"

definition exampleServer :: "(string \<times> nat) list MiniServer" where
  "exampleServer =
     \<lparr>root = ''/srv'',
      port = 4200,
      staticFolder = ''public'',
      apiConteoller = Some exampleController,
      hotRelaodfile = ''hot-reload-k3x9.js'',
      devHotReload = True\<rparr>"

definition noEffects :: io where
  "noEffects = \<lparr>issued = [], unhandled = []\<rparr>"

section \<open>Lemmas on strings and lists\<close>

lemma split_not_Nil: "split c s \<noteq> []"
  by (induction s) (auto simp: Let_def)

lemma hd_split: "hd (split c s) = takeWhile (\<lambda>x. x \<noteq> c) s"
  by (induction s) (auto simp: Let_def)

lemma every_iff: "every p xs = (\<forall>i<length xs. p (xs ! i) i)"
proof -
  have "list_all (\<lambda>(i, x). p x i) (enumerate n xs) = (\<forall>i<length xs. p (xs ! i) (n + i))" for n
  proof (induction xs arbitrary: n)
    case Nil
    then show ?case by simp
  next
    case (Cons a xs)
    show ?case
      by (simp add: Cons.IH) (auto simp: less_Suc_eq_0_disj)
  qed
  from this[of 0] show ?thesis by (simp add: every_def)
qed

lemma startsWith_colon: "startsWith '':'' p \<longleftrightarrow> p \<noteq> [] \<and> hd p = CHR '':''"
  by (cases p) (auto simp: startsWith_def)

lemma orElse_index: "orElse (index rs i) [] = (if i < length rs then rs ! i else [])"
  by (simp add: orElse_def index_def)

lemma find_first:
  assumes "k < length xs" and "P (xs ! k)" and "\<forall>l<k. \<not> P (xs ! l)"
  shows "find P xs = Some (xs ! k)"
  using assms
proof (induction xs arbitrary: k)
  case Nil
  then show ?case by simp
next
  case (Cons x xs)
  show ?case
  proof (cases k)
    case 0
    then show ?thesis using Cons.prems by simp
  next
    case (Suc j)
    have "\<not> P x" using Cons.prems(3) Suc by auto
    moreover have "find P xs = Some (xs ! j)"
      using Cons.prems Suc by (intro Cons.IH) auto
    ultimately show ?thesis using Suc by simp
  qed
qed

lemma find_append_Some: "find P xs = Some x \<Longrightarrow> find P (xs @ ys) = Some x"
  by (induction xs) (auto split: if_splits)

lemma find_none: "(\<forall>x\<in>set xs. \<not> P x) \<Longrightarrow> find P xs = None"
  by (induction xs) auto

lemma routes_addRoutes: "routes (foldl (\<lambda>c r. addRoute r c) this later) = routes this @ later"
  by (induction later arbitrary: this) (auto simp: addRoute_def)

section \<open>Lemmas on the route matcher\<close>

lemma isRouteMatch_iff:
  "isRouteMatch r q \<longleftrightarrow>
     length (split CHR ''/'' (url r)) = length (split CHR ''/'' (url q)) \<and>
     \<not> (case (meth r, meth q) of
           (Some rm, Some qm) \<Rightarrow> rm \<noteq> [] \<and> qm \<noteq> [] \<and> toUpperCase rm \<noteq> toUpperCase qm
         | _ \<Rightarrow> False) \<and>
     (\<forall>i<length (split CHR ''/'' (url r)).
        startsWith '':'' (split CHR ''/'' (url r) ! i) \<or>
        split CHR ''/'' (url q) ! i = split CHR ''/'' (url r) ! i)"
  by (auto simp: isRouteMatch_def Let_def every_iff index_def)

lemma bind_fold:
  assumes "\<forall>(i, p) \<in> set xs. p \<noteq> '':__proto__''"
  shows "foldl (\<lambda>a (i, x). if startsWith '':'' x
                  then assign a (substring 1 x) (orElse (index rs i) [])
                  else a) acc xs =
         acc ++ map_of (rev (map (\<lambda>(i, p). (tl p, if i < length rs then rs ! i else []))
           (filter (\<lambda>(i, p). p \<noteq> [] \<and> hd p = CHR '':'') xs)))"
    (is "foldl ?f acc xs = acc ++ map_of (rev (?bs xs))")
  using assms
proof (induction xs arbitrary: acc)
  case Nil
  then show ?case by simp
next
  case (Cons a xs)
  obtain i p where a: "a = (i, p)" by (cases a)
  have rest: "\<forall>(i, p) \<in> set xs. p \<noteq> '':__proto__''" using Cons.prems by simp
  have np: "p \<noteq> '':__proto__''" using Cons.prems a by simp
  show ?case
  proof (cases "startsWith '':'' p")
    case False
    then have "foldl ?f acc (a # xs) = foldl ?f acc xs" using a by simp
    moreover have "?bs (a # xs) = ?bs xs" using False a by (simp add: startsWith_colon)
    ultimately show ?thesis using Cons.IH[OF rest, of acc] by simp
  next
    case True
    then obtain t where p: "p = CHR '':'' # t" by (cases p) (auto simp: startsWith_colon)
    have t: "t \<noteq> ''__proto__''" using np p by simp
    define v where "v = (if i < length rs then rs ! i else [])"
    have step: "?f acc a = acc(t \<mapsto> v)"
      using a True t p by (auto simp: orElse_index assign_def substring_def v_def fun_eq_iff)
    have "foldl ?f acc (a # xs) = foldl ?f (?f acc a) xs" by simp
    also have "\<dots> = foldl ?f (acc(t \<mapsto> v)) xs" by (simp only: step)
    also have "\<dots> = acc(t \<mapsto> v) ++ map_of (rev (?bs xs))" by (rule Cons.IH[OF rest])
    finally have 1: "foldl ?f acc (a # xs) = acc(t \<mapsto> v) ++ map_of (rev (?bs xs))" .
    have "?bs (a # xs) = (t, v) # ?bs xs" using a p by (simp add: v_def)
    then have "map_of (rev (?bs (a # xs))) = [t \<mapsto> v] ++ map_of (rev (?bs xs))"
      by (simp only: rev.simps map_of_append) simp
    then have 2: "acc ++ map_of (rev (?bs (a # xs))) = acc(t \<mapsto> v) ++ map_of (rev (?bs xs))"
      by (simp add: map_add_assoc[symmetric])
    show ?thesis by (simp only: 1 2)
  qed
qed

lemma getVariablesFromPath_strip:
  "getVariablesFromPath path \<lparr>url = u, meth = m\<rparr> =
   getVariablesFromPath path \<lparr>url = takeWhile (\<lambda>c. c \<noteq> CHR ''?'') u, meth = m'\<rparr>"
  by (simp add: getVariablesFromPath_def hd_split)

section \<open>Lemmas on the controller\<close>

lemma use_first:
  assumes "k < length (routes this)"
    and "matchesRequest (routes this ! k) request"
    and "\<forall>l<k. \<not> matchesRequest (routes this ! l) request"
  shows "use nd this request response w = invoke nd this (routes this ! k) request response w"
  using find_first[of k "routes this" "\<lambda>r. matchesRequest r request"] assms
  by (simp add: use_def)

section \<open>Lemmas on the server\<close>

lemma matchesRequest_url:
  "matchesRequest r (request\<lparr>req_url := Some (case req_url request of Some u \<Rightarrow> u | None \<Rightarrow> [])\<rparr>) =
   matchesRequest r request"
  by (simp add: matchesRequest_def split: option.splits)

lemma apiCallsServer_unmatched:
  assumes "case apiConteoller this of
             None \<Rightarrow> True
           | Some c \<Rightarrow> \<forall>r\<in>set (routes c). \<not> matchesRequest r request"
  shows "\<exists>result. apiCallsServer nd this request response w = (Normal result, this, response, w) \<and>
           \<not> (case result of None \<Rightarrow> False | Some r \<Rightarrow> handled r)"
proof (cases "apiConteoller this")
  case None
  then show ?thesis by (simp add: apiCallsServer_def)
next
  case (Some c)
  let ?q = "request\<lparr>req_url := Some (case req_url request of Some u \<Rightarrow> u | None \<Rightarrow> [])\<rparr>"
  have "\<forall>r\<in>set (routes c). \<not> matchesRequest r ?q"
    using assms Some by (simp add: matchesRequest_url)
  then have "find (\<lambda>r. matchesRequest r ?q) (routes c) = None"
    by (rule find_none)
  then have "use nd c ?q response w = (Normal \<lparr>handled = False\<rparr>, c, response, w)"
    by (simp add: use_def)
  moreover have "this\<lparr>apiConteoller := Some c\<rparr> = this" using Some by simp
  ultimately show ?thesis using Some by (simp add: apiCallsServer_def Let_def)
qed

section \<open>Claims about the route matcher\<close>

text \<open>
  C1 (the code departs from the claim). The claim: matching splits the request path
  without its query string, so the pattern \<open>/api/first\<close> matches the request
  \<open>/api/first?x=1\<close> as it matches \<open>/api/first\<close>. \<open>isRouteMatch\<close> splits the raw
  \<open>request.url\<close>: the last segment of the request is \<open>first?x=1\<close>, which is not
  the literal \<open>first\<close>, and \<open>use\<close> reports the request as not handled.
  \<open>getVariablesFromPath\<close>, beside it, does cut the query string off first.
\<close>

theorem literal_route_misses_query_string:
  "isRouteMatch \<lparr>url = ''/api/first'', meth = None\<rparr>
                \<lparr>url = ''/api/first'', meth = Some ''GET''\<rparr> \<and>
   \<not> isRouteMatch \<lparr>url = ''/api/first'', meth = None\<rparr>
                  \<lparr>url = ''/api/first?x=1'', meth = Some ''GET''\<rparr> \<and>
   split CHR ''/'' ''/api/first?x=1'' = ['''', ''api'', ''first?x=1''] \<and>
   fst (use (exampleNode exampleFiles exampleDirs) exampleController
          \<lparr>req_url = Some ''/api/first?x=1'', req_method = Some ''GET''\<rparr>
          newResponse noEffects) = Normal \<lparr>handled = False\<rparr>"
  by code_simp

text \<open>
  C3 (amended). A route built by \<open>createRoute\<close> without a method gets the method
  \<open>GET\<close>, and then does not match a request whose method is non-empty and is not
  \<open>GET\<close> in any letter case. A route whose \<open>method\<close> field is unset has no method
  filter: it matches or not whatever the method of the request is. When both the
  route and the request carry a non-empty method, the route matches exactly when the
  methods agree up to letter case and the segments match.
\<close>

theorem method_filter:
  "route_method (createRoute nd (args\<lparr>arg_method := None\<rparr>)) = Some ''GET'' \<and>
   (qm \<noteq> [] \<and> toUpperCase qm \<noteq> ''GET'' \<longrightarrow>
      \<not> isRouteMatch
          \<lparr>url = route_url (createRoute nd (args\<lparr>arg_method := None\<rparr>)),
           meth = route_method (createRoute nd (args\<lparr>arg_method := None\<rparr>))\<rparr>
          \<lparr>url = u, meth = Some qm\<rparr>) \<and>
   isRouteMatch \<lparr>url = p, meth = None\<rparr> \<lparr>url = u, meth = m\<rparr> =
     isRouteMatch \<lparr>url = p, meth = None\<rparr> \<lparr>url = u, meth = None\<rparr> \<and>
   (rm \<noteq> [] \<and> qm \<noteq> [] \<longrightarrow>
      isRouteMatch \<lparr>url = p, meth = Some rm\<rparr> \<lparr>url = u, meth = Some qm\<rparr> =
        (toUpperCase rm = toUpperCase qm \<and>
         isRouteMatch \<lparr>url = p, meth = None\<rparr> \<lparr>url = u, meth = None\<rparr>))"
proof -
  have get: "toUpperCase ''GET'' = ''GET''" by code_simp
  show ?thesis
    by (auto simp: isRouteMatch_iff createRoute_def orElse_def get)
qed

text \<open>The amended C3 at a route without a method and a \<open>POST\<close> request.\<close>

theorem method_filter_witness:
  "route_method (createRoute (exampleNode exampleFiles exampleDirs)
      \<lparr>arg_url = ''/api/second/:id'', arg_method = None,
       arg_data = None, arg_status = None\<rparr>) = Some ''GET'' \<and>
   ''POST'' \<noteq> [] \<and> toUpperCase ''POST'' \<noteq> ''GET'' \<and>
   \<not> isRouteMatch \<lparr>url = ''/api/second/:id'', meth = Some ''GET''\<rparr>
                  \<lparr>url = ''/api/second/7'', meth = Some ''POST''\<rparr> \<and>
   isRouteMatch \<lparr>url = ''/api/second/:id'', meth = None\<rparr>
                \<lparr>url = ''/api/second/7'', meth = Some ''POST''\<rparr> \<and>
   ''post'' \<noteq> [] \<and>
   isRouteMatch \<lparr>url = ''/api/second/:id'', meth = Some ''post''\<rparr>
                \<lparr>url = ''/api/second/7'', meth = Some ''POST''\<rparr>"
proof -
  have a: "''POST'' \<noteq> [] \<and> toUpperCase ''POST'' \<noteq> ''GET''" by code_simp
  have b: "''post'' \<noteq> [] \<and> ''POST'' \<noteq> []" by simp
  have c: "toUpperCase ''post'' = toUpperCase ''POST''" by code_simp
  have d: "isRouteMatch \<lparr>url = ''/api/second/:id'', meth = None\<rparr>
                \<lparr>url = ''/api/second/7'', meth = None\<rparr>" by code_simp
  show ?thesis
    using method_filter[where nd = "exampleNode exampleFiles exampleDirs"
        and args = "\<lparr>arg_url = ''/api/second/:id'', arg_method = None,
                     arg_data = None, arg_status = None\<rparr>"
        and qm = "''POST''" and u = "''/api/second/7''" and p = "''/api/second/:id''"
        and m = "Some ''POST''" and rm = "''post''"]
      a b c d
    by (simp add: createRoute_def orElse_def)
qed

text \<open>
  C3 as claimed fails: the route \<open>/api/first\<close> of the example controller is
  registered without a method, as in \<open>src/server/controller.js\<close>, and it matches
  and handles a \<open>POST\<close> request.
\<close>

theorem unset_method_matches_post:
  "isRouteMatch \<lparr>url = ''/api/first'', meth = None\<rparr>
                \<lparr>url = ''/api/first'', meth = Some ''POST''\<rparr> \<and>
   route_method (routes exampleController ! 0) = None \<and>
   fst (use (exampleNode exampleFiles exampleDirs) exampleController
          \<lparr>req_url = Some ''/api/first'', req_method = Some ''POST''\<rparr>
          newResponse noEffects) = Normal \<lparr>handled = True\<rparr>"
  by code_simp

text \<open>
  C4 (amended). A colon-prefixed segment of the pattern matches every value of the
  request's segment at its position, the empty string too: for a pattern and a
  request with the same number of segments and no method mismatch, the route matches
  exactly when every pattern segment that does not start with a colon equals the
  request's segment at the same position.
\<close>

theorem variable_segment_accepts_any_value:
  assumes "length (split CHR ''/'' (url r)) = length (split CHR ''/'' (url q))"
    and "\<not> (\<exists>rm qm. meth r = Some rm \<and> meth q = Some qm \<and> rm \<noteq> [] \<and> qm \<noteq> [] \<and>
                    toUpperCase rm \<noteq> toUpperCase qm)"
  shows "isRouteMatch r q \<longleftrightarrow>
           (\<forall>i<length (split CHR ''/'' (url r)).
              \<not> startsWith '':'' (split CHR ''/'' (url r) ! i) \<longrightarrow>
              split CHR ''/'' (url q) ! i = split CHR ''/'' (url r) ! i)"
  using assms by (auto simp: isRouteMatch_iff split: option.splits)

text \<open>
  The amended C4 at the pattern \<open>/api/second/:id\<close> and the request
  \<open>/api/second/\<close>, whose last segment is empty.
\<close>

theorem variable_segment_accepts_any_value_witness:
  "length (split CHR ''/'' ''/api/second/:id'') = length (split CHR ''/'' ''/api/second/'') \<and>
   \<not> (\<exists>rm qm. (None :: string option) = Some rm \<and> Some ''GET'' = Some qm \<and> rm \<noteq> [] \<and> qm \<noteq> [] \<and>
                toUpperCase rm \<noteq> toUpperCase qm) \<and>
   split CHR ''/'' ''/api/second/'' ! 3 = [] \<and>
   isRouteMatch \<lparr>url = ''/api/second/:id'', meth = None\<rparr>
                \<lparr>url = ''/api/second/'', meth = Some ''GET''\<rparr>"
proof -
  have len: "length (split CHR ''/'' (url \<lparr>url = ''/api/second/:id'', meth = None\<rparr>)) =
             length (split CHR ''/'' (url \<lparr>url = ''/api/second/'', meth = Some ''GET''\<rparr>))"
    by simp
  have ms: "\<not> (\<exists>rm qm. meth \<lparr>url = ''/api/second/:id'', meth = None\<rparr> = Some rm \<and>
                  meth \<lparr>url = ''/api/second/'', meth = Some ''GET''\<rparr> = Some qm \<and>
                  rm \<noteq> [] \<and> qm \<noteq> [] \<and> toUpperCase rm \<noteq> toUpperCase qm)"
    by simp
  have segs: "\<forall>i<length (split CHR ''/'' (url \<lparr>url = ''/api/second/:id'', meth = None\<rparr>)).
      \<not> startsWith '':'' (split CHR ''/'' (url \<lparr>url = ''/api/second/:id'', meth = None\<rparr>) ! i) \<longrightarrow>
      split CHR ''/'' (url \<lparr>url = ''/api/second/'', meth = Some ''GET''\<rparr>) ! i =
      split CHR ''/'' (url \<lparr>url = ''/api/second/:id'', meth = None\<rparr>) ! i"
    by (simp add: All_less_Suc startsWith_def)
  have third: "split CHR ''/'' ''/api/second/'' ! 3 = []" by code_simp
  show ?thesis
    using variable_segment_accepts_any_value[OF len ms] segs third by simp
qed

text \<open>
  C4 as claimed fails: the request \<open>/api/second/\<close> has the empty string where the
  pattern \<open>/api/second/:id\<close> has its variable, it matches, and \<open>use\<close> handles it.
\<close>

theorem empty_segment_matches_variable:
  "isRouteMatch \<lparr>url = ''/api/second/:id'', meth = None\<rparr>
                \<lparr>url = ''/api/second/'', meth = Some ''GET''\<rparr> \<and>
   split CHR ''/'' ''/api/second/'' = ['''', ''api'', ''second'', ''''] \<and>
   fst (use (exampleNode exampleFiles exampleDirs) exampleController
          \<lparr>req_url = Some ''/api/second/'', req_method = Some ''GET''\<rparr>
          newResponse noEffects) = Normal \<lparr>handled = True\<rparr>"
  by code_simp

text \<open>
  C9 (the code departs from the claim). The claim: \<open>getVariablesFromPath\<close> cuts the
  request path at its first \<open>?\<close> and then binds the name of each colon-prefixed
  pattern segment to the request segment at the same position. The code binds with
  the assignment \<open>variables[name] = value\<close> on a plain object (server.js, line 251),
  and for the name \<open>__proto__\<close> that assignment makes no property: on the pattern
  \<open>/:__proto__\<close> and the request \<open>/x\<close> the result is the empty object, where the
  claim's reading, \<open>extractVariables\<close>, binds \<open>__proto__\<close> to \<open>x\<close>.
\<close>

theorem proto_variable_is_not_bound:
  "getVariablesFromPath ''/:__proto__'' \<lparr>url = ''/x'', meth = None\<rparr> = Map.empty \<and>
   extractVariables ''/:__proto__'' ''/x'' = [''__proto__'' \<mapsto> ''x''] \<and>
   getVariablesFromPath ''/:__proto__'' \<lparr>url = ''/x'', meth = None\<rparr> \<noteq>
     extractVariables ''/:__proto__'' ''/x''"
proof -
  have 1: "getVariablesFromPath ''/:__proto__'' \<lparr>url = ''/x'', meth = None\<rparr> = Map.empty"
    by (simp add: getVariablesFromPath_def forEach_def startsWith_def assign_def substring_def)
  have 2: "extractVariables ''/:__proto__'' ''/x'' = [''__proto__'' \<mapsto> ''x'']"
    by (simp add: extractVariables_def)
  have 3: "Map.empty \<noteq> [''__proto__'' \<mapsto> ''x'']"
    using map_upd_nonempty[of Map.empty "''__proto__''" "''x''"] by (simp only: not_sym not_False_eq_True)
  show ?thesis by (simp only: 1 2 3 simp_thms)
qed

text \<open>
  For every other name the code does bind: on a pattern that has no segment
  \<open>:__proto__\<close>, \<open>getVariablesFromPath\<close> is \<open>extractVariables\<close>. The query string
  never plays a part, and the pattern \<open>/api/second/:id\<close> on \<open>/api/second/42?x=1\<close>
  gives \<open>{id: "42"}\<close>.
\<close>

lemma getVariablesFromPath_extractVariables:
  assumes "'':__proto__'' \<notin> set (split CHR ''/'' path)"
  shows "getVariablesFromPath path \<lparr>url = u, meth = m\<rparr> = extractVariables path u \<and>
         getVariablesFromPath path \<lparr>url = u, meth = m\<rparr> =
           getVariablesFromPath path \<lparr>url = takeWhile (\<lambda>c. c \<noteq> CHR ''?'') u, meth = m\<rparr> \<and>
         getVariablesFromPath ''/api/second/:id'' \<lparr>url = ''/api/second/42?x=1'', meth = m\<rparr> =
           [''id'' \<mapsto> ''42'']"
proof -
  have "\<forall>(i, p) \<in> set (enumerate 0 (split CHR ''/'' path)). p \<noteq> '':__proto__''"
    using assms by (auto simp: in_set_enumerate_eq) (metis nth_mem)
  from bind_fold[OF this, of "split CHR ''/'' (takeWhile (\<lambda>x. x \<noteq> CHR ''?'') u)" Map.empty]
  have 1: "getVariablesFromPath path \<lparr>url = u, meth = m\<rparr> = extractVariables path u"
    by (simp add: getVariablesFromPath_def extractVariables_def forEach_def hd_split Let_def)
  have 2: "getVariablesFromPath path \<lparr>url = u, meth = m\<rparr> =
           getVariablesFromPath path \<lparr>url = takeWhile (\<lambda>c. c \<noteq> CHR ''?'') u, meth = m\<rparr>"
    by (rule getVariablesFromPath_strip)
  have 3: "getVariablesFromPath ''/api/second/:id'' \<lparr>url = ''/api/second/42?x=1'', meth = m\<rparr> =
           [''id'' \<mapsto> ''42'']"
    by (simp add: getVariablesFromPath_def forEach_def startsWith_def assign_def substring_def
        orElse_def index_def)
  show ?thesis using 1 2 3 by simp
qed

text \<open>
  The same at a pattern with two variables and a request that lacks the last segment,
  and at the example of the specification.
\<close>

lemma getVariablesFromPath_extractVariables_example:
  "'':__proto__'' \<notin> set (split CHR ''/'' ''/shop/:item/:size'') \<and>
   getVariablesFromPath ''/shop/:item/:size'' \<lparr>url = ''/shop/hat?colour=red'', meth = None\<rparr> =
     [''item'' \<mapsto> ''hat'', ''size'' \<mapsto> ''''] \<and>
   getVariablesFromPath ''/api/second/:id'' \<lparr>url = ''/api/second/42?x=1'', meth = None\<rparr> =
     [''id'' \<mapsto> ''42'']"
proof -
  have h: "'':__proto__'' \<notin> set (split CHR ''/'' ''/shop/:item/:size'')" by simp
  have e: "extractVariables ''/shop/:item/:size'' ''/shop/hat?colour=red'' =
           [''item'' \<mapsto> ''hat'', ''size'' \<mapsto> '''']"
    by (simp add: extractVariables_def)
  show ?thesis
    using getVariablesFromPath_extractVariables[OF h, of "''/shop/hat?colour=red''" None] h e
    by simp
qed

section \<open>Claims about the controller\<close>

text \<open>
  C5. Of the routes that match a request, the one registered first is the one that
  \<open>use\<close> invokes: if the route at position \<open>k\<close> matches and none before it does,
  \<open>use\<close> runs the action of that route, and it still does so after any routes are
  added with \<open>addRoute\<close>, which puts them behind it, whether they match or not.
\<close>

theorem first_registered_route_is_invoked:
  assumes "k < length (routes this)"
    and "matchesRequest (routes this ! k) request"
    and "\<forall>l<k. \<not> matchesRequest (routes this ! l) request"
  shows "use nd this request response w =
           invoke nd this (routes this ! k) request response w \<and>
         use nd (foldl (\<lambda>c r. addRoute r c) this later) request response w =
           invoke nd (foldl (\<lambda>c r. addRoute r c) this later) (routes this ! k)
             request response w"
proof -
  have f: "find (\<lambda>r. matchesRequest r request) (routes this) = Some (routes this ! k)"
    using assms by (intro find_first) auto
  then have "find (\<lambda>r. matchesRequest r request) (routes this @ later) = Some (routes this ! k)"
    by (rule find_append_Some)
  then show ?thesis using f by (simp add: use_def routes_addRoutes)
qed

text \<open>
  C5 at the variable route \<open>/api/second/:id\<close> and the literal route
  \<open>/api/second/42\<close> added after it: both match, and the response is the earlier
  route's.
\<close>

theorem first_registered_route_is_invoked_witness:
  "(1::nat) < length (routes exampleController) \<and>
   matchesRequest (routes exampleController ! 1)
     \<lparr>req_url = Some ''/api/second/42'', req_method = Some ''GET''\<rparr> \<and>
   \<not> matchesRequest (routes exampleController ! 0)
     \<lparr>req_url = Some ''/api/second/42'', req_method = Some ''GET''\<rparr> \<and>
   matchesRequest
     \<lparr>route_url = ''/api/second/42'', route_method = None, routeAction = firstAction\<rparr>
     \<lparr>req_url = Some ''/api/second/42'', req_method = Some ''GET''\<rparr> \<and>
   use (exampleNode exampleFiles exampleDirs)
       (addRoute \<lparr>route_url = ''/api/second/42'', route_method = None, routeAction = firstAction\<rparr>
          exampleController)
       \<lparr>req_url = Some ''/api/second/42'', req_method = Some ''GET''\<rparr> newResponse noEffects =
     invoke (exampleNode exampleFiles exampleDirs)
       (addRoute \<lparr>route_url = ''/api/second/42'', route_method = None, routeAction = firstAction\<rparr>
          exampleController)
       (routes exampleController ! 1)
       \<lparr>req_url = Some ''/api/second/42'', req_method = Some ''GET''\<rparr> newResponse noEffects \<and>
   fst (snd (snd (use (exampleNode exampleFiles exampleDirs)
       (addRoute \<lparr>route_url = ''/api/second/42'', route_method = None, routeAction = firstAction\<rparr>
          exampleController)
       \<lparr>req_url = Some ''/api/second/42'', req_method = Some ''GET''\<rparr> newResponse noEffects))) =
     \<lparr>statusCode = 200, headers = [(''Content-Type'', ''application/json'')],
      body = ''{\"abc\":123}'', ended = True\<rparr>"
proof -
  have k: "(1::nat) < length (routes exampleController)" by (simp add: exampleController_def)
  have m1: "matchesRequest (routes exampleController ! 1)
     \<lparr>req_url = Some ''/api/second/42'', req_method = Some ''GET''\<rparr>" by code_simp
  have m0: "\<not> matchesRequest (routes exampleController ! 0)
     \<lparr>req_url = Some ''/api/second/42'', req_method = Some ''GET''\<rparr>" by code_simp
  have m2: "matchesRequest
     \<lparr>route_url = ''/api/second/42'', route_method = None, routeAction = firstAction\<rparr>
     \<lparr>req_url = Some ''/api/second/42'', req_method = Some ''GET''\<rparr>" by code_simp
  have first: "\<forall>l<1. \<not> matchesRequest (routes exampleController ! l)
     \<lparr>req_url = Some ''/api/second/42'', req_method = Some ''GET''\<rparr>" using m0 by simp
  have r: "fst (snd (snd (invoke (exampleNode exampleFiles exampleDirs)
       (addRoute \<lparr>route_url = ''/api/second/42'', route_method = None, routeAction = firstAction\<rparr>
          exampleController)
       (routes exampleController ! 1)
       \<lparr>req_url = Some ''/api/second/42'', req_method = Some ''GET''\<rparr> newResponse noEffects))) =
     \<lparr>statusCode = 200, headers = [(''Content-Type'', ''application/json'')],
      body = ''{\"abc\":123}'', ended = True\<rparr>" by code_simp
  show ?thesis
    using first_registered_route_is_invoked[OF k m1 first,
        where nd = "exampleNode exampleFiles exampleDirs"
          and later = "[\<lparr>route_url = ''/api/second/42'', route_method = None,
                         routeAction = firstAction\<rparr>]"
          and response = newResponse and w = noEffects]
      k m1 m0 m2 r
    by simp
qed

text \<open>
  C7. When no registered route matches the request, \<open>use\<close> returns
  \<open>{handled: false}\<close> and nothing else happens: the controller with its state, the
  response and the record of writes are as they were.
\<close>

theorem unmatched_request_has_no_effect:
  assumes "\<forall>r\<in>set (routes this). \<not> matchesRequest r request"
  shows "use nd this request response w = (Normal \<lparr>handled = False\<rparr>, this, response, w)"
  using find_none[of "routes this" "\<lambda>r. matchesRequest r request"] assms
  by (simp add: use_def)

text \<open>C7 at a request that none of the three routes of the example controller matches.\<close>

theorem unmatched_request_has_no_effect_witness:
  "length (routes exampleController) = 3 \<and>
   \<not> matchesRequest (routes exampleController ! 0)
       \<lparr>req_url = Some ''/api/unknown'', req_method = Some ''GET''\<rparr> \<and>
   \<not> matchesRequest (routes exampleController ! 1)
       \<lparr>req_url = Some ''/api/unknown'', req_method = Some ''GET''\<rparr> \<and>
   \<not> matchesRequest (routes exampleController ! 2)
       \<lparr>req_url = Some ''/api/unknown'', req_method = Some ''GET''\<rparr> \<and>
   use (exampleNode exampleFiles exampleDirs) exampleController
       \<lparr>req_url = Some ''/api/unknown'', req_method = Some ''GET''\<rparr> newResponse noEffects =
     (Normal \<lparr>handled = False\<rparr>, exampleController, newResponse, noEffects)"
proof -
  have n: "length (routes exampleController) = 3" by (simp add: exampleController_def)
  have m0: "\<not> matchesRequest (routes exampleController ! 0)
       \<lparr>req_url = Some ''/api/unknown'', req_method = Some ''GET''\<rparr>" by code_simp
  have m1: "\<not> matchesRequest (routes exampleController ! 1)
       \<lparr>req_url = Some ''/api/unknown'', req_method = Some ''GET''\<rparr>" by code_simp
  have m2: "\<not> matchesRequest (routes exampleController ! 2)
       \<lparr>req_url = Some ''/api/unknown'', req_method = Some ''GET''\<rparr>" by code_simp
  have none: "\<forall>r\<in>set (routes exampleController). \<not> matchesRequest r
       \<lparr>req_url = Some ''/api/unknown'', req_method = Some ''GET''\<rparr>"
  proof
    fix r assume "r \<in> set (routes exampleController)"
    then obtain i where "i < 3" and "r = routes exampleController ! i"
      using n by (metis in_set_conv_nth)
    then have "i = 0 \<or> i = 1 \<or> i = 2" by auto
    then show "\<not> matchesRequest r \<lparr>req_url = Some ''/api/unknown'', req_method = Some ''GET''\<rparr>"
      using m0 m1 m2 \<open>r = routes exampleController ! i\<close> by auto
  qed
  show ?thesis
    using unmatched_request_has_no_effect[OF none,
        where nd = "exampleNode exampleFiles exampleDirs" and response = newResponse
          and w = noEffects]
      n m0 m1 m2
    by simp
qed

text \<open>
  C8. When the first matching route's action returns and persistence is on, \<open>use\<close>
  issues one \<open>writeFile\<close> of the backing file with \<open>JSON.stringify(state, null, 2)\<close>
  of the state as the action left it, changed or not (a state that can be serialised,
  as the controller's state is meant to be), in \<open>utf8\<close>, and returns
  \<open>{handled: true}\<close> with the action's response whether the write will be fulfilled or
  rejected; a rejection ends as an unhandled one.
\<close>

theorem handled_request_persists_state:
  assumes "k < length (routes this)"
    and "matchesRequest (routes this ! k) request"
    and "\<forall>l<k. \<not> matchesRequest (routes this ! l) request"
    and "routeAction (routes this ! k) request response (state this) =
           (Normal (), response', st')"
    and "persistState this"
    and "stringify nd st' 2 = Inr text"
  shows "use nd this request response w =
           (Normal \<lparr>handled = True\<rparr>, this\<lparr>state := st'\<rparr>, response',
            w\<lparr>issued := issued w @ [(stateSaveFileName this, text, ''utf8'')],
              unhandled := unhandled w @
                  (case writeFile nd (stateSaveFileName this) text ''utf8'' of
                     None \<Rightarrow> []
                   | Some reason \<Rightarrow> [reason])\<rparr>)"
proof -
  have "use nd this request response w = invoke nd this (routes this ! k) request response w"
    using assms(1-3) by (rule use_first)
  then show ?thesis
    using assms(4,5,6) by (simp add: invoke_def Let_def split: option.splits)
qed

text \<open>
  C8 at \<open>/api/first\<close>, whose action counts, and at \<open>/api/second/5\<close>, whose action
  leaves the state alone, with a backing file that cannot be written.
\<close>

theorem handled_request_persists_state_witness:
  "(0::nat) < length (routes exampleController) \<and>
   matchesRequest (routes exampleController ! 0)
     \<lparr>req_url = Some ''/api/first'', req_method = Some ''GET''\<rparr> \<and>
   routeAction (routes exampleController ! 0)
     \<lparr>req_url = Some ''/api/first'', req_method = Some ''GET''\<rparr> newResponse
     (state exampleController) =
     (Normal (),
      \<lparr>statusCode = 200, headers = [(''Content-Type'', ''text/plain'')],
       body = ''route /api/first  was called 1 times'', ended = True\<rparr>,
      [(''count'', 1)]) \<and>
   persistState exampleController \<and>
   stringify (exampleNode exampleFiles exampleDirs) [(''count'', 1)] 2 =
     Inr ''{\<newline>  \"count\": 1\<newline>}'' \<and>
   use (exampleNode exampleFiles exampleDirs) exampleController
     \<lparr>req_url = Some ''/api/first'', req_method = Some ''GET''\<rparr> newResponse noEffects =
     (Normal \<lparr>handled = True\<rparr>, exampleController\<lparr>state := [(''count'', 1)]\<rparr>,
      \<lparr>statusCode = 200, headers = [(''Content-Type'', ''text/plain'')],
       body = ''route /api/first  was called 1 times'', ended = True\<rparr>,
      \<lparr>issued = [(''./server.state.temp'', ''{\<newline>  \"count\": 1\<newline>}'', ''utf8'')],
       unhandled = []\<rparr>) \<and>
   (1::nat) < length (routes (exampleController\<lparr>stateSaveFileName := ''/readonly/state''\<rparr>)) \<and>
   matchesRequest (routes (exampleController\<lparr>stateSaveFileName := ''/readonly/state''\<rparr>) ! 1)
     \<lparr>req_url = Some ''/api/second/5'', req_method = Some ''GET''\<rparr> \<and>
   \<not> matchesRequest (routes (exampleController\<lparr>stateSaveFileName := ''/readonly/state''\<rparr>) ! 0)
     \<lparr>req_url = Some ''/api/second/5'', req_method = Some ''GET''\<rparr> \<and>
   use (exampleNode exampleFiles exampleDirs)
     (exampleController\<lparr>stateSaveFileName := ''/readonly/state''\<rparr>)
     \<lparr>req_url = Some ''/api/second/5'', req_method = Some ''GET''\<rparr> newResponse noEffects =
     (Normal \<lparr>handled = True\<rparr>,
      exampleController\<lparr>stateSaveFileName := ''/readonly/state'', state := [(''count'', 0)]\<rparr>,
      \<lparr>statusCode = 200, headers = [(''Content-Type'', ''application/json'')],
       body = ''{\"abc\":123}'', ended = True\<rparr>,
      \<lparr>issued = [(''/readonly/state'', ''{\<newline>  \"count\": 0\<newline>}'', ''utf8'')],
       unhandled = [''Error: EACCES: permission denied, open /readonly/state'']\<rparr>)"
proof -
  let ?nd = "exampleNode exampleFiles exampleDirs"
  let ?q1 = "\<lparr>req_url = Some ''/api/first'', req_method = Some ''GET''\<rparr>"
  let ?q2 = "\<lparr>req_url = Some ''/api/second/5'', req_method = Some ''GET''\<rparr>"
  let ?c2 = "exampleController\<lparr>stateSaveFileName := ''/readonly/state''\<rparr>"
  have k1: "(0::nat) < length (routes exampleController)" by (simp add: exampleController_def)
  have m1: "matchesRequest (routes exampleController ! 0) ?q1" by code_simp
  have f1: "\<forall>l<0. \<not> matchesRequest (routes exampleController ! l) ?q1" by simp
  have a1: "routeAction (routes exampleController ! 0) ?q1 newResponse (state exampleController) =
     (Normal (),
      \<lparr>statusCode = 200, headers = [(''Content-Type'', ''text/plain'')],
       body = ''route /api/first  was called 1 times'', ended = True\<rparr>,
      [(''count'', 1)])" by code_simp
  have p1: "persistState exampleController" by (simp add: exampleController_def)
  have s1: "stringify ?nd [(''count'', 1)] 2 = Inr ''{\<newline>  \"count\": 1\<newline>}''" by code_simp
  have n1: "stateSaveFileName exampleController = ''./server.state.temp''"
    by (simp add: exampleController_def)
  have w1: "writeFile ?nd ''./server.state.temp'' ''{\<newline>  \"count\": 1\<newline>}'' ''utf8'' = None"
    by code_simp
  have k2: "(1::nat) < length (routes ?c2)" by (simp add: exampleController_def)
  have m2: "matchesRequest (routes ?c2 ! 1) ?q2" by code_simp
  have m0: "\<not> matchesRequest (routes ?c2 ! 0) ?q2" by code_simp
  have f2: "\<forall>l<1. \<not> matchesRequest (routes ?c2 ! l) ?q2" using m0 by simp
  have a2: "routeAction (routes ?c2 ! 1) ?q2 newResponse (state ?c2) =
     (Normal (),
      \<lparr>statusCode = 200, headers = [(''Content-Type'', ''application/json'')],
       body = ''{\"abc\":123}'', ended = True\<rparr>,
      [(''count'', 0)])" by code_simp
  have p2: "persistState ?c2" by (simp add: exampleController_def)
  have s2: "stringify ?nd [(''count'', 0)] 2 = Inr ''{\<newline>  \"count\": 0\<newline>}''" by code_simp
  have w2: "writeFile ?nd ''/readonly/state'' ''{\<newline>  \"count\": 0\<newline>}'' ''utf8'' =
            Some ''Error: EACCES: permission denied, open /readonly/state''"
    by code_simp
  show ?thesis
    using handled_request_persists_state[OF k1 m1 f1 a1 p1 s1, where w = noEffects]
      handled_request_persists_state[OF k2 m2 f2 a2 p2 s2, where w = noEffects]
      k1 m1 a1 p1 s1 k2 m2 m0 s2
    by (simp add: n1 w1 w2 noEffects_def)
qed

text \<open>
  C10. When the action of the first matching route throws, \<open>use\<close> throws the same
  exception instead of returning \<open>{handled: true}\<close>, and issues no write, with
  persistence on or off; what the action did to the state and the response before
  throwing stays.
\<close>

theorem throwing_action_skips_persistence:
  assumes "k < length (routes this)"
    and "matchesRequest (routes this ! k) request"
    and "\<forall>l<k. \<not> matchesRequest (routes this ! l) request"
    and "routeAction (routes this ! k) request response (state this) =
           (Throw e, response', st')"
  shows "use nd this request response w = (Throw e, this\<lparr>state := st'\<rparr>, response', w)"
proof -
  have "use nd this request response w = invoke nd this (routes this ! k) request response w"
    using assms(1-3) by (rule use_first)
  then show ?thesis
    using assms(4) by (simp add: invoke_def)
qed

text \<open>C10 at the route \<open>/api/fail\<close> of the example controller, which persists its state.\<close>

theorem throwing_action_skips_persistence_witness:
  "(2::nat) < length (routes exampleController) \<and>
   matchesRequest (routes exampleController ! 2)
     \<lparr>req_url = Some ''/api/fail'', req_method = Some ''GET''\<rparr> \<and>
   \<not> matchesRequest (routes exampleController ! 0)
     \<lparr>req_url = Some ''/api/fail'', req_method = Some ''GET''\<rparr> \<and>
   \<not> matchesRequest (routes exampleController ! 1)
     \<lparr>req_url = Some ''/api/fail'', req_method = Some ''GET''\<rparr> \<and>
   persistState exampleController \<and>
   routeAction (routes exampleController ! 2)
     \<lparr>req_url = Some ''/api/fail'', req_method = Some ''GET''\<rparr> newResponse
     (state exampleController) =
     (Throw ''Error: boom'', newResponse, [(''touched'', 1), (''count'', 0)]) \<and>
   use (exampleNode exampleFiles exampleDirs) exampleController
     \<lparr>req_url = Some ''/api/fail'', req_method = Some ''GET''\<rparr> newResponse noEffects =
     (Throw ''Error: boom'',
      exampleController\<lparr>state := [(''touched'', 1), (''count'', 0)]\<rparr>,
      newResponse, noEffects)"
proof -
  let ?q = "\<lparr>req_url = Some ''/api/fail'', req_method = Some ''GET''\<rparr>"
  have k: "(2::nat) < length (routes exampleController)" by (simp add: exampleController_def)
  have m2: "matchesRequest (routes exampleController ! 2) ?q" by code_simp
  have m0: "\<not> matchesRequest (routes exampleController ! 0) ?q" by code_simp
  have m1: "\<not> matchesRequest (routes exampleController ! 1) ?q" by code_simp
  have f: "\<forall>l<2. \<not> matchesRequest (routes exampleController ! l) ?q"
    using m0 m1 by (simp add: less_Suc_eq numeral_2_eq_2)
  have p: "persistState exampleController" by (simp add: exampleController_def)
  have a: "routeAction (routes exampleController ! 2) ?q newResponse (state exampleController) =
     (Throw ''Error: boom'', newResponse, [(''touched'', 1), (''count'', 0)])"
    by (simp add: exampleController_def failingAction_def)
  show ?thesis
    using throwing_action_skips_persistence[OF k m2 f a,
        where nd = "exampleNode exampleFiles exampleDirs" and w = noEffects]
      k m2 m0 m1 p a
    by simp
qed

section \<open>Claims about the server\<close>

text \<open>
  C2 (amended). For every request that the router does not handle, because the
  server has no controller or because no registered route matches, and whose
  resolved path contains \<open>.well-known\<close>, the static resolver only ends the
  response, whatever the disk holds, and the server's answer is status 200 with no
  header and an empty body; nothing else changes.
\<close>

theorem unrouted_probe_gets_empty_200:
  assumes "includesStr ''.well-known''
             (joinPath nd (joinPath nd (root this) (staticFolder this))
                (case req_url request of Some u \<Rightarrow> u | None \<Rightarrow> []))"
    and "case apiConteoller this of
           None \<Rightarrow> True
         | Some c \<Rightarrow> \<forall>r\<in>set (routes c). \<not> matchesRequest r request"
  shows "staticFileServer nd this request response = (Normal (), res_end response) \<and>
         serverMainHandler nd this request newResponse w =
           (Normal (), this,
            \<lparr>statusCode = 200, headers = [], body = [], ended = True\<rparr>, w)"
proof -
  have s: "staticFileServer nd this request response = (Normal (), res_end response)" for response
    using assms(1) by (simp add: staticFileServer_def Let_def)
  obtain result where
    a: "apiCallsServer nd this request newResponse w = (Normal result, this, newResponse, w)"
    and h: "\<not> (case result of None \<Rightarrow> False | Some r \<Rightarrow> handled r)"
    using apiCallsServer_unmatched[OF assms(2)] by blast
  have "serverMainHandler nd this request newResponse w =
          (Normal (), this, res_end newResponse, w)"
    using a h s[of newResponse] by (simp add: serverMainHandler_def)
  then show ?thesis using s by (simp add: res_end_def newResponse_def)
qed

text \<open>
  The amended C2 at the example server, none of whose routes matches the probe
  \<open>/.well-known/acme-challenge/token\<close>.
\<close>

theorem unrouted_probe_gets_empty_200_witness:
  "includesStr ''.well-known''
     (joinPath (exampleNode exampleFiles exampleDirs)
        (joinPath (exampleNode exampleFiles exampleDirs) (root exampleServer)
           (staticFolder exampleServer))
        ''/.well-known/acme-challenge/token'') \<and>
   apiConteoller exampleServer = Some exampleController \<and>
   length (routes exampleController) = 3 \<and>
   \<not> matchesRequest (routes exampleController ! 0)
       \<lparr>req_url = Some ''/.well-known/acme-challenge/token'', req_method = Some ''GET''\<rparr> \<and>
   \<not> matchesRequest (routes exampleController ! 1)
       \<lparr>req_url = Some ''/.well-known/acme-challenge/token'', req_method = Some ''GET''\<rparr> \<and>
   \<not> matchesRequest (routes exampleController ! 2)
       \<lparr>req_url = Some ''/.well-known/acme-challenge/token'', req_method = Some ''GET''\<rparr> \<and>
   serverMainHandler (exampleNode exampleFiles exampleDirs) exampleServer
       \<lparr>req_url = Some ''/.well-known/acme-challenge/token'', req_method = Some ''GET''\<rparr>
       newResponse noEffects =
     (Normal (), exampleServer,
      \<lparr>statusCode = 200, headers = [], body = [], ended = True\<rparr>, noEffects)"
proof -
  let ?nd = "exampleNode exampleFiles exampleDirs"
  let ?q = "\<lparr>req_url = Some ''/.well-known/acme-challenge/token'', req_method = Some ''GET''\<rparr>"
  have p: "includesStr ''.well-known''
     (joinPath ?nd (joinPath ?nd (root exampleServer) (staticFolder exampleServer))
        (case req_url ?q of Some u \<Rightarrow> u | None \<Rightarrow> []))"
    by code_simp
  have c: "apiConteoller exampleServer = Some exampleController"
    by (simp add: exampleServer_def)
  have n: "length (routes exampleController) = 3" by (simp add: exampleController_def)
  have m0: "\<not> matchesRequest (routes exampleController ! 0) ?q" by code_simp
  have m1: "\<not> matchesRequest (routes exampleController ! 1) ?q" by code_simp
  have m2: "\<not> matchesRequest (routes exampleController ! 2) ?q" by code_simp
  have "\<forall>i<length (routes exampleController). \<not> matchesRequest (routes exampleController ! i) ?q"
    using m0 m1 m2 by (auto simp: n less_Suc_eq numeral_3_eq_3 numeral_2_eq_2)
  then have "\<forall>r\<in>set (routes exampleController). \<not> matchesRequest r ?q"
    by (simp add: all_set_conv_all_nth)
  then have u: "case apiConteoller exampleServer of
           None \<Rightarrow> True
         | Some c \<Rightarrow> \<forall>r\<in>set (routes c). \<not> matchesRequest r ?q"
    by (simp add: c)
  show ?thesis
    using unrouted_probe_gets_empty_200[OF p u, where w = noEffects] p c n m0 m1 m2
    by simp
qed

text \<open>
  C2 as claimed fails: routing comes first. With a route \<open>/.well-known/:token\<close>
  registered, the probe \<open>/.well-known/acme\<close> is answered by that route's action,
  here with status 404 and a JSON body.
\<close>

theorem routed_probe_is_not_bypassed:
  "includesStr ''.well-known''
     (joinPath (exampleNode exampleFiles exampleDirs)
        (joinPath (exampleNode exampleFiles exampleDirs) ''/srv'' ''public'')
        ''/.well-known/acme'') \<and>
   fst (snd (snd (serverMainHandler (exampleNode exampleFiles exampleDirs)
     \<lparr>root = ''/srv'', port = 4200, staticFolder = ''public'',
      apiConteoller = Some
        \<lparr>persistState = False, stateSaveFileName = ''./server.state.temp'',
         routes = [createRoute (exampleNode exampleFiles exampleDirs)
                     \<lparr>arg_url = ''/.well-known/:token'', arg_method = None,
                      arg_data = Some [(''probe'', 1)], arg_status = Some 404\<rparr>],
         state = []\<rparr>,
      hotRelaodfile = ''hot-reload-k3x9.js'', devHotReload = False\<rparr>
     \<lparr>req_url = Some ''/.well-known/acme'', req_method = Some ''GET''\<rparr>
     newResponse noEffects))) =
   \<lparr>statusCode = 404, headers = [(''Content-Type'', ''application/json'')],
    body = ''{\"probe\":1}'', ended = True\<rparr>"
  by code_simp

text \<open>
  C6 (amended). When the static resolver is invoked for a path that does not exist
  on disk, and the resolved path does not contain \<open>.well-known\<close> and the request is
  not the one for the hot-reload worker of a server with hot reload on: if the
  resolved path contains \<open>api\<close>, the response is status 400, \<open>text/plain\<close>,
  \<open>API call not found\<close>; otherwise the file read is \<open>404.html\<close> in the working
  directory, and if it can be read its content is served with status 200 and the
  content type of its extension, with the hot-reload script put before the first
  \<open></head>\<close> when hot reload is on and the name ends in \<open>.html\<close>, and if it cannot
  be read the response is status 500, \<open>text/plain\<close>, with the error's text.
\<close>

theorem missing_path_response:
  assumes "u = (case req_url request of Some u \<Rightarrow> u | None \<Rightarrow> [])"
    and "filename = joinPath nd (joinPath nd (root this) (staticFolder this)) u"
    and "\<not> existsSync nd filename"
    and "\<not> includesStr ''.well-known'' filename"
    and "\<not> (devHotReload this \<and> replace ''/'' [] u = hotRelaodfile this)"
  shows "staticFileServer nd this request response =
           (Normal (),
            if includesStr ''api'' filename
            then response\<lparr>statusCode := 400,
                   headers := [(''Content-Type'', ''text/plain'')],
                   body := body response @ ''API call not found'',
                   ended := True\<rparr>
            else (case readFileSync nd (joinPath nd (cwd nd) ''/404.html'') of
                    Inr content \<Rightarrow>
                      response\<lparr>statusCode := 200,
                        headers :=
                          (case map_of contentTypes
                                  (extname nd (joinPath nd (cwd nd) ''/404.html'')) of
                             None \<Rightarrow> []
                           | Some contentType \<Rightarrow> [(''Content-Type'', contentType)]),
                        body := body response @
                          (if endsWith ''.html'' (joinPath nd (cwd nd) ''/404.html'') \<and>
                              devHotReload this
                           then replace ''</head>'' (htmlHotReloadScript this @ ''</head>'') content
                           else content),
                        ended := True\<rparr>
                  | Inl err \<Rightarrow>
                      response\<lparr>statusCode := 500,
                        headers := [(''Content-Type'', ''text/plain'')],
                        body := body response @ err @ ''\<newline>'',
                        ended := True\<rparr>))"
proof -
  have hot: "(devHotReload this \<and> replace ''/'' [] u = hotRelaodfile this) = False"
    using assms(5) by simp
  have "staticFileServer nd this request response =
          (if includesStr ''api'' filename
           then (Normal (),
                 res_end (res_write ''API call not found''
                   (writeHead 400 [(''Content-Type'', ''text/plain'')] response)))
           else (Normal (), sendFile nd this (joinPath nd (cwd nd) ''/404.html'') response))"
    unfolding staticFileServer_def Let_def assms(1)[symmetric] assms(2)[symmetric]
    using assms(3,4) by (simp only: hot if_False if_True not_False_eq_True)
  then show ?thesis
    by (simp add: sendFile_def Let_def res_end_def res_write_def writeHead_def
        split: sum.splits option.splits)
qed

text \<open>
  The amended C6 at \<open>/api/missing\<close>, and at \<open>/missing.html\<close> with hot reload off
  and on.
\<close>

theorem missing_path_response_witness:
  "\<not> existsSync (exampleNode exampleFiles exampleDirs) ''/srv/public/api/missing'' \<and>
   \<not> includesStr ''.well-known'' ''/srv/public/api/missing'' \<and>
   \<not> (devHotReload exampleServer \<and> replace ''/'' [] ''/api/missing'' = hotRelaodfile exampleServer) \<and>
   staticFileServer (exampleNode exampleFiles exampleDirs) exampleServer
     \<lparr>req_url = Some ''/api/missing'', req_method = Some ''GET''\<rparr> newResponse =
     (Normal (),
      \<lparr>statusCode = 400, headers = [(''Content-Type'', ''text/plain'')],
       body = ''API call not found'', ended = True\<rparr>) \<and>
   \<not> existsSync (exampleNode exampleFiles exampleDirs) ''/srv/public/missing.html'' \<and>
   \<not> includesStr ''.well-known'' ''/srv/public/missing.html'' \<and>
   \<not> (devHotReload (exampleServer\<lparr>devHotReload := False\<rparr>) \<and>
      replace ''/'' [] ''/missing.html'' = hotRelaodfile (exampleServer\<lparr>devHotReload := False\<rparr>)) \<and>
   staticFileServer (exampleNode exampleFiles exampleDirs) (exampleServer\<lparr>devHotReload := False\<rparr>)
     \<lparr>req_url = Some ''/missing.html'', req_method = Some ''GET''\<rparr> newResponse =
     (Normal (),
      \<lparr>statusCode = 200, headers = [(''Content-Type'', ''text/html'')],
       body = ''<html><head></head><body>Not found</body></html>'', ended = True\<rparr>) \<and>
   \<not> (devHotReload exampleServer \<and>
      replace ''/'' [] ''/missing.html'' = hotRelaodfile exampleServer) \<and>
   staticFileServer (exampleNode exampleFiles exampleDirs) exampleServer
     \<lparr>req_url = Some ''/missing.html'', req_method = Some ''GET''\<rparr> newResponse =
     (Normal (),
      \<lparr>statusCode = 200, headers = [(''Content-Type'', ''text/html'')],
       body = ''<html><head>'' @ htmlHotReloadScript exampleServer @
              ''</head><body>Not found</body></html>'',
       ended = True\<rparr>)"
proof -
  let ?nd = "exampleNode exampleFiles exampleDirs"
  let ?q1 = "\<lparr>req_url = Some ''/api/missing'', req_method = Some ''GET''\<rparr>"
  let ?q2 = "\<lparr>req_url = Some ''/missing.html'', req_method = Some ''GET''\<rparr>"
  let ?s2 = "exampleServer\<lparr>devHotReload := False\<rparr>"
  have u1: "''/api/missing'' = (case req_url ?q1 of Some u \<Rightarrow> u | None \<Rightarrow> [])" by simp
  have f1: "''/srv/public/api/missing'' =
            joinPath ?nd (joinPath ?nd (root exampleServer) (staticFolder exampleServer)) ''/api/missing''"
    by code_simp
  have e1: "\<not> existsSync ?nd ''/srv/public/api/missing''" by code_simp
  have k1: "\<not> includesStr ''.well-known'' ''/srv/public/api/missing''" by code_simp
  have h1: "\<not> (devHotReload exampleServer \<and>
               replace ''/'' [] ''/api/missing'' = hotRelaodfile exampleServer)" by code_simp
  have a1: "includesStr ''api'' ''/srv/public/api/missing''" by code_simp
  have u2: "''/missing.html'' = (case req_url ?q2 of Some u \<Rightarrow> u | None \<Rightarrow> [])" by simp
  have f2: "''/srv/public/missing.html'' =
            joinPath ?nd (joinPath ?nd (root ?s2) (staticFolder ?s2)) ''/missing.html''"
    by code_simp
  have e2: "\<not> existsSync ?nd ''/srv/public/missing.html''" by code_simp
  have k2: "\<not> includesStr ''.well-known'' ''/srv/public/missing.html''" by code_simp
  have h2: "\<not> (devHotReload ?s2 \<and> replace ''/'' [] ''/missing.html'' = hotRelaodfile ?s2)"
    by simp
  have a2: "\<not> includesStr ''api'' ''/srv/public/missing.html''" by code_simp
  have j: "joinPath ?nd (cwd ?nd) ''/404.html'' = ''/srv/404.html''" by code_simp
  have r: "readFileSync ?nd ''/srv/404.html'' =
           Inr ''<html><head></head><body>Not found</body></html>''" by code_simp
  have x: "map_of contentTypes (extname ?nd ''/srv/404.html'') = Some ''text/html''"
    by code_simp
  have d2: "devHotReload ?s2 = False" by simp
  have t1: "staticFileServer ?nd exampleServer ?q1 newResponse =
     (Normal (),
      newResponse\<lparr>statusCode := 400, headers := [(''Content-Type'', ''text/plain'')],
        body := body newResponse @ ''API call not found'', ended := True\<rparr>)"
    using missing_path_response[OF u1 f1 e1 k1 h1, where response = newResponse]
    by (simp only: a1 if_True)
  have t2: "staticFileServer ?nd ?s2 ?q2 newResponse =
     (Normal (),
      newResponse\<lparr>statusCode := 200, headers := [(''Content-Type'', ''text/html'')],
        body := body newResponse @ ''<html><head></head><body>Not found</body></html>'',
        ended := True\<rparr>)"
    using missing_path_response[OF u2 f2 e2 k2 h2, where response = newResponse]
    by (simp only: a2 if_False j r x d2 simp_thms sum.case option.case)
  have f3: "''/srv/public/missing.html'' =
            joinPath ?nd (joinPath ?nd (root exampleServer) (staticFolder exampleServer))
              ''/missing.html''"
    by code_simp
  have h3: "\<not> (devHotReload exampleServer \<and>
               replace ''/'' [] ''/missing.html'' = hotRelaodfile exampleServer)" by code_simp
  have d3: "devHotReload exampleServer = True" by (simp add: exampleServer_def)
  have w3: "endsWith ''.html'' ''/srv/404.html'' = True" by code_simp
  have i3: "replace ''</head>'' (htmlHotReloadScript exampleServer @ ''</head>'')
              ''<html><head></head><body>Not found</body></html>'' =
            ''<html><head>'' @ htmlHotReloadScript exampleServer @
            ''</head><body>Not found</body></html>''"
    by (simp add: startsWith_def)
  have t3: "staticFileServer ?nd exampleServer ?q2 newResponse =
     (Normal (),
      newResponse\<lparr>statusCode := 200, headers := [(''Content-Type'', ''text/html'')],
        body := body newResponse @ ''<html><head>'' @ htmlHotReloadScript exampleServer @
                ''</head><body>Not found</body></html>'',
        ended := True\<rparr>)"
    using missing_path_response[OF u2 f3 e2 k2 h3, where response = newResponse]
    by (simp only: a2 if_False if_True j r x d3 w3 i3 simp_thms sum.case option.case)
  show ?thesis
    using e1 k1 h1 e2 k2 h2 h3 by (simp only: t1 t2 t3) (simp add: newResponse_def)
qed

text \<open>
  C6 as claimed fails for paths that do not exist on disk: \<open>/.well-known/api-probe\<close>
  contains \<open>api\<close> and gets the empty 200 of a probe, not 400; the hot-reload worker's
  path gets the worker script, not \<open>404.html\<close>; and with no \<open>404.html\<close> to read,
  \<open>/missing.html\<close> gets status 500.
\<close>

theorem missing_path_special_cases:
  "\<not> existsSync (exampleNode exampleFiles exampleDirs)
       (joinPath (exampleNode exampleFiles exampleDirs)
          (joinPath (exampleNode exampleFiles exampleDirs) (root exampleServer)
             (staticFolder exampleServer))
          ''/.well-known/api-probe'') \<and>
   includesStr ''api''
       (joinPath (exampleNode exampleFiles exampleDirs)
          (joinPath (exampleNode exampleFiles exampleDirs) (root exampleServer)
             (staticFolder exampleServer))
          ''/.well-known/api-probe'') \<and>
   staticFileServer (exampleNode exampleFiles exampleDirs) exampleServer
     \<lparr>req_url = Some ''/.well-known/api-probe'', req_method = Some ''GET''\<rparr> newResponse =
     (Normal (), \<lparr>statusCode = 200, headers = [], body = [], ended = True\<rparr>) \<and>
   \<not> existsSync (exampleNode exampleFiles exampleDirs)
       (joinPath (exampleNode exampleFiles exampleDirs)
          (joinPath (exampleNode exampleFiles exampleDirs) (root exampleServer)
             (staticFolder exampleServer))
          ''/hot-reload-k3x9.js'') \<and>
   \<not> includesStr ''api''
       (joinPath (exampleNode exampleFiles exampleDirs)
          (joinPath (exampleNode exampleFiles exampleDirs) (root exampleServer)
             (staticFolder exampleServer))
          ''/hot-reload-k3x9.js'') \<and>
   staticFileServer (exampleNode exampleFiles exampleDirs) exampleServer
     \<lparr>req_url = Some ''/hot-reload-k3x9.js'', req_method = Some ''GET''\<rparr> newResponse =
     (Normal (),
      \<lparr>statusCode = 200, headers = [(''Content-Type'', ''text/javascript'')],
       body = htmlHotReloadWorker, ended = True\<rparr>) \<and>
   \<not> existsSync (exampleNode [] [])
       (joinPath (exampleNode [] [])
          (joinPath (exampleNode [] []) (root exampleServer) (staticFolder exampleServer))
          ''/missing.html'') \<and>
   \<not> includesStr ''api''
       (joinPath (exampleNode [] [])
          (joinPath (exampleNode [] []) (root exampleServer) (staticFolder exampleServer))
          ''/missing.html'') \<and>
   staticFileServer (exampleNode [] []) exampleServer
     \<lparr>req_url = Some ''/missing.html'', req_method = Some ''GET''\<rparr> newResponse =
     (Normal (),
      \<lparr>statusCode = 500, headers = [(''Content-Type'', ''text/plain'')],
       body = ''Error: ENOENT: no such file or directory, open /srv/404.html\<newline>'',
       ended = True\<rparr>)"
  by code_simp

end
